theory Spec2Isabelle
  imports Main "HOL-Library.Char_ord" "HOL-Library.List_Lexorder"
begin

section \<open>The experiment runner of learn_runner.py\<close>

text \<open>
  The repository's other file, the script test_tftrt.py, builds a float32 graph and
  runs it through TensorFlow and TensorRT; all it computes is computed there, in
  floating point, so it has no embedding here.

  The module has two functions, \<open>run\<close> and \<open>_valid_tasks\<close>. Both work on Python
  objects through the builtins \<open>callable\<close>, \<open>isinstance\<close>, \<open>hasattr\<close>,
  \<open>getattr\<close>, \<open>dir\<close> and \<open>type\<close>, so the embedding starts with the part of the
  Python object model these builtins read.
\<close>

subsection \<open>Exceptions\<close>

text \<open>
  The exception classes the module raises itself are \<open>ValueError\<close> and \<open>TypeError\<close>,
  each with its message. \<open>AttributeError\<close> is what \<open>getattr\<close> raises on a missing
  name; \<open>OtherError\<close> stands for whatever else a caller-supplied builder or task raises.
\<close>

datatype pyexn =
    ValueError string
  | TypeError string
  | AttributeError string
  | OtherError string

subsection \<open>Objects\<close>

text \<open>
  An attribute is either callable with no arguments (calling it returns a value or
  raises) or a plain, non-callable value.
\<close>

datatype 'v attr =
    Method "unit \<Rightarrow> pyexn + 'v"
  | Data 'v

text \<open>
  An object carries what \<open>str(type(o))\<close> prints, whether \<open>isinstance(o, Experiment)\<close>
  holds, and two things that Python keeps apart:
  \<^item> \<open>names\<close>, the names its \<open>__dir__\<close> reports (a list of strings);
  \<^item> \<open>attribute\<close>, what the access \<open>o.name\<close> does for each name: it yields the
    attribute, or raises. A missing name raises \<open>AttributeError\<close>; a property may
    raise anything; a \<open>__getattr__\<close> method answers for names that \<open>names\<close> does not
    report.
  Neither determines the other. An access has no effect on the object: the same name
  gives the same outcome each time.
\<close>

record 'v obj =
  type_str :: string
  is_Experiment :: bool
  names :: "string list"
  attribute :: "string \<Rightarrow> pyexn + 'v attr"

text \<open>
  The access of a plain object, whose attributes are the entries of a dictionary and
  nothing else.
\<close>

definition plain :: "(string \<times> 'v attr) list \<Rightarrow> string \<Rightarrow> pyexn + 'v attr" where
  "plain d name =
     (case map_of d name of
        None \<Rightarrow> Inl (AttributeError name)
      | Some a \<Rightarrow> Inr a)"

text \<open>
  The first argument of \<open>run\<close>: an object that is not callable (with what \<open>%s\<close>
  prints for it; a tuple, which \<open>%\<close> would take apart, is left out), or a callable
  taking keyword arguments and returning an object or raising.
\<close>

datatype 'v builder =
    NotCallable string
  | Callable "(string \<times> string) list \<Rightarrow> pyexn + 'v obj"

subsection \<open>Builtins\<close>

definition callable :: "'v attr \<Rightarrow> bool" where
  "callable a = (case a of Method m \<Rightarrow> True | Data v \<Rightarrow> False)"

text \<open>\<open>a()\<close>: calling what is not callable raises \<open>TypeError\<close>.\<close>

definition call :: "'v attr \<Rightarrow> pyexn + 'v" where
  "call a =
     (case a of
        Method m \<Rightarrow> m ()
      | Data v \<Rightarrow> Inl (TypeError ''object is not callable''))"

text \<open>\<open>getattr(o, name)\<close> is the access \<open>o.name\<close>.\<close>

definition getattr :: "'v obj \<Rightarrow> string \<Rightarrow> pyexn + 'v attr" where
  "getattr e name = attribute e name"

text \<open>
  \<open>hasattr(o, name)\<close> calls \<open>getattr(o, name)\<close> and tells whether it raised
  \<open>AttributeError\<close>; any other exception goes through (Python 3).
\<close>

definition hasattr :: "'v obj \<Rightarrow> string \<Rightarrow> pyexn + bool" where
  "hasattr e name =
     (case getattr e name of
        Inr a \<Rightarrow> Inr True
      | Inl err \<Rightarrow>
          (case err of
             AttributeError m \<Rightarrow> Inr False
           | ValueError m \<Rightarrow> Inl err
           | TypeError m \<Rightarrow> Inl err
           | OtherError m \<Rightarrow> Inl err))"

text \<open>\<open>dir(o)\<close> is the sorted list of the names that \<open>__dir__\<close> reports.\<close>

definition dir :: "'v obj \<Rightarrow> string list" where
  "dir e = sort (names e)"

text \<open>\<open>s.startswith(p)\<close>\<close>

definition startswith :: "string \<Rightarrow> string \<Rightarrow> bool" where
  "startswith s p = (take (length p) s = p)"

subsection \<open>\<open>_valid_tasks\<close>\<close>

text \<open>
  \<^verbatim>\<open>
  def _valid_tasks(experiment):
    return [x for x in dir(experiment)
            if callable(getattr(experiment, x)) and not x.startswith('_')]
  \<close>
  The comprehension is a loop over \<open>dir(experiment)\<close>; an exception of \<open>getattr\<close>
  ends it.
\<close>

fun valid_tasks_loop :: "'v obj \<Rightarrow> string list \<Rightarrow> pyexn + string list" where
  "valid_tasks_loop experiment [] = Inr []"
| "valid_tasks_loop experiment (x # xs) =
     (case getattr experiment x of
        Inl err \<Rightarrow> Inl err
      | Inr a \<Rightarrow>
          (case valid_tasks_loop experiment xs of
             Inl err \<Rightarrow> Inl err
           | Inr ys \<Rightarrow>
               Inr (if callable a \<and> \<not> startswith x ''_'' then x # ys else ys)))"

definition valid_tasks :: "'v obj \<Rightarrow> pyexn + string list" where
  "valid_tasks experiment = valid_tasks_loop experiment (dir experiment)"

subsection \<open>\<open>run\<close>\<close>

text \<open>
  What \<open>run\<close> does besides returning or raising: it calls the builder with keyword
  arguments, it logs errors (a format string and its arguments, as handed to
  \<open>logging.error\<close>), and it calls the task. The trace records these in order.
\<close>

datatype logarg = AStr string | AStrList "string list"

datatype event =
    Call_experiment_fn "(string \<times> string) list"
  | Log_error string "logarg list"
  | Call_task string

text \<open>
  \<^verbatim>\<open>
  def run(experiment_fn, output_dir, schedule):
    if not output_dir:
      raise ValueError('Must specify an output directory')
    if not schedule:
      raise ValueError('Must specify a schedule')
    if not callable(experiment_fn):
      raise TypeError('Experiment builder "%s" is not callable.' %
                      experiment_fn)

    # Call the builder
    experiment = experiment_fn(output_dir=output_dir)
    if not isinstance(experiment, Experiment):
      raise TypeError('Experiment builder did not return an Experiment '
                      'instance, got %s instead.' % type(experiment))

    # Execute the schedule
    if not hasattr(experiment, schedule):
      logging.error('Schedule references non-existent task %s', schedule)
      valid_tasks = _valid_tasks(experiment)
      logging.error('Allowed values for this experiment are: %s', valid_tasks)
      raise ValueError('Schedule references non-existent task %s' % schedule)

    task = getattr(experiment, schedule)
    if not callable(task):
      logging.error('Schedule references non-callable member %s', schedule)
      valid_tasks = _valid_tasks(experiment)
      logging.error('Allowed values for this experiment are: %s', valid_tasks)
      raise TypeError('Schedule references non-callable member %s' % schedule)

    return task()
  \<close>
  \<open>output_dir\<close> and \<open>schedule\<close> are strings, so \<open>not s\<close> is \<open>s = []\<close>.
  An exception of the builder, of \<open>hasattr\<close>, of \<open>getattr\<close> or of \<open>_valid_tasks\<close>
  leaves \<open>run\<close> at that point. The result is the trace together with the exception raised (\<open>Inl\<close>) or the value
  returned (\<open>Inr\<close>).
\<close>

definition run :: "'v builder \<Rightarrow> string \<Rightarrow> string \<Rightarrow> event list \<times> (pyexn + 'v)" where
  "run experiment_fn output_dir schedule =
     (if output_dir = [] then
        ([], Inl (ValueError ''Must specify an output directory''))
      else if schedule = [] then
        ([], Inl (ValueError ''Must specify a schedule''))
      else
        case experiment_fn of
          NotCallable s \<Rightarrow>
            ([], Inl (TypeError (''Experiment builder '' @ [CHR 0x22] @ s @ [CHR 0x22]
                                 @ '' is not callable.'')))
        | Callable f \<Rightarrow>
            let t1 = [Call_experiment_fn [(''output_dir'', output_dir)]] in
            (case f [(''output_dir'', output_dir)] of
               Inl err \<Rightarrow> (t1, Inl err)
             | Inr experiment \<Rightarrow>
                 if \<not> is_Experiment experiment then
                   (t1, Inl (TypeError
                      (''Experiment builder did not return an Experiment instance, got ''
                       @ type_str experiment @ '' instead.'')))
                 else
                   (case hasattr experiment schedule of
                      Inl err \<Rightarrow> (t1, Inl err)
                    | Inr present \<Rightarrow>
                        if \<not> present then
                          let t2 = t1 @ [Log_error
                                    ''Schedule references non-existent task %s''
                                    [AStr schedule]] in
                          (case valid_tasks experiment of
                             Inl err \<Rightarrow> (t2, Inl err)
                           | Inr tasks \<Rightarrow>
                               (t2 @ [Log_error
                                        ''Allowed values for this experiment are: %s''
                                        [AStrList tasks]],
                                Inl (ValueError
                                   (''Schedule references non-existent task ''
                                    @ schedule))))
                        else
                          (case getattr experiment schedule of
                             Inl err \<Rightarrow> (t1, Inl err)
                           | Inr task \<Rightarrow>
                               if \<not> callable task then
                                 let t2 = t1 @ [Log_error
                                           ''Schedule references non-callable member %s''
                                           [AStr schedule]] in
                                 (case valid_tasks experiment of
                                    Inl err \<Rightarrow> (t2, Inl err)
                                  | Inr tasks \<Rightarrow>
                                      (t2 @ [Log_error
                                               ''Allowed values for this experiment are: %s''
                                               [AStrList tasks]],
                                       Inl (TypeError
                                          (''Schedule references non-callable member ''
                                           @ schedule))))
                               else
                                 (t1 @ [Call_task schedule], call task)))))"

section \<open>Scenarios\<close>

text \<open>
  A plain experiment with a public method \<open>train\<close> returning \<open>"trained"\<close>, a private
  method \<open>_private\<close> returning \<open>"x"\<close> and a data attribute \<open>name\<close>; a builder
  returning it.
\<close>

definition scenario_experiment :: "string obj" where
  "scenario_experiment =
     \<lparr>type_str = ''<class '' @ [CHR 0x27] @ ''Experiment'' @ [CHR 0x27] @ ''>'',
      is_Experiment = True,
      names = [''train'', ''_private'', ''name''],
      attribute = plain [(''train'', Method (\<lambda>u. Inr ''trained'')),
                         (''_private'', Method (\<lambda>u. Inr ''x'')),
                         (''name'', Data ''exp'')]\<rparr>"

definition scenario_fn :: "string builder" where
  "scenario_fn = Callable (\<lambda>kwargs. Inr scenario_experiment)"

text \<open>A builder returning a dictionary instead of an experiment.\<close>

definition not_an_experiment :: "string obj" where
  "not_an_experiment =
     \<lparr>type_str = ''<class '' @ [CHR 0x27] @ ''dict'' @ [CHR 0x27] @ ''>'',
      is_Experiment = False,
      names = [''keys''],
      attribute = plain [(''keys'', Method (\<lambda>u. Inr ''[]''))]\<rparr>"

definition dict_fn :: "string builder" where
  "dict_fn = Callable (\<lambda>kwargs. Inr not_an_experiment)"

text \<open>
  An experiment of a subclass with a property \<open>boom\<close> whose getter raises, next to a
  method \<open>train\<close> and a data attribute \<open>name\<close>:
  \<^verbatim>\<open>
  class Boom(Experiment):
    name = 'exp'
    @property
    def boom(self): raise RuntimeError('boom')
    def train(self): return 'trained'
  \<close>
\<close>

definition boom_experiment :: "string obj" where
  "boom_experiment =
     \<lparr>type_str = ''<class '' @ [CHR 0x27] @ ''Boom'' @ [CHR 0x27] @ ''>'',
      is_Experiment = True,
      names = [''train'', ''name'', ''boom''],
      attribute = (\<lambda>n. if n = ''boom'' then Inl (OtherError ''RuntimeError: boom'')
                        else plain [(''train'', Method (\<lambda>u. Inr ''trained'')),
                                    (''name'', Data ''exp'')] n)\<rparr>"

definition boom_fn :: "string builder" where
  "boom_fn = Callable (\<lambda>kwargs. Inr boom_experiment)"

text \<open>
  An experiment of a subclass whose \<open>__getattr__\<close> answers for \<open>evaluate\<close>, a name
  that \<open>dir\<close> does not list:
  \<^verbatim>\<open>
  class Dynamic(Experiment):
    def train(self): return 'trained'
    def __getattr__(self, n):
      if n == 'evaluate': return lambda: 'evaluated'
      raise AttributeError(n)
  \<close>
\<close>

definition dynamic_experiment :: "string obj" where
  "dynamic_experiment =
     \<lparr>type_str = ''<class '' @ [CHR 0x27] @ ''Dynamic'' @ [CHR 0x27] @ ''>'',
      is_Experiment = True,
      names = [''train''],
      attribute = (\<lambda>n. if n = ''evaluate'' then Inr (Method (\<lambda>u. Inr ''evaluated''))
                        else plain [(''train'', Method (\<lambda>u. Inr ''trained''))] n)\<rparr>"

text \<open>
  A builder that reads its keyword argument \<open>output_dir\<close> (a call without it is a
  \<open>TypeError\<close>) and returns an experiment whose \<open>train\<close> returns that directory.
\<close>

definition echo_fn :: "string builder" where
  "echo_fn =
     Callable (\<lambda>kwargs.
       case map_of kwargs ''output_dir'' of
         None \<Rightarrow> Inl (TypeError ''missing argument output_dir'')
       | Some d \<Rightarrow>
           Inr \<lparr>type_str = ''<class '' @ [CHR 0x27] @ ''Experiment'' @ [CHR 0x27] @ ''>'',
                is_Experiment = True,
                names = [''train''],
                attribute = plain [(''train'', Method (\<lambda>u. Inr d))]\<rparr>)"

text \<open>A builder that raises.\<close>

definition raising_fn :: "string builder" where
  "raising_fn = Callable (\<lambda>kwargs. Inl (OtherError ''IOError: disk full''))"

section \<open>Reading the trace\<close>

text \<open>The keyword arguments of each call of the builder, in order.\<close>

fun builder_calls :: "event list \<Rightarrow> (string \<times> string) list list" where
  "builder_calls [] = []"
| "builder_calls (Call_experiment_fn kwargs # evs) = kwargs # builder_calls evs"
| "builder_calls (ev # evs) = builder_calls evs"

section \<open>Properties of the builtins\<close>

lemma callable_iff: "callable a \<longleftrightarrow> (\<exists>m. a = Method m)"
  by (cases a) (simp_all add: callable_def)

lemma hasattr_True_iff: "hasattr e name = Inr True \<longleftrightarrow> (\<exists>a. getattr e name = Inr a)"
  by (simp add: hasattr_def split: sum.splits pyexn.splits)

lemma hasattr_False_iff:
  "hasattr e name = Inr False \<longleftrightarrow> (\<exists>m. getattr e name = Inl (AttributeError m))"
  by (simp add: hasattr_def split: sum.splits pyexn.splits)

text \<open>
  The loop of \<open>_valid_tasks\<close>: when no access raises, it is a filter; otherwise it
  raises what the first raising access raises.
\<close>

lemma valid_tasks_loop_returns:
  "\<forall>x \<in> set xs. \<not> isl (getattr e x) \<Longrightarrow>
   valid_tasks_loop e xs =
     Inr (filter (\<lambda>x. case getattr e x of
                         Inl err \<Rightarrow> False
                       | Inr a \<Rightarrow> callable a \<and> \<not> startswith x ''_'') xs)"
proof (induction xs)
  case Nil
  show ?case by simp
next
  case (Cons x xs)
  from Cons.prems obtain a where a: "getattr e x = Inr a"
    by (cases "getattr e x") auto
  from Cons have "valid_tasks_loop e xs =
     Inr (filter (\<lambda>x. case getattr e x of
                         Inl err \<Rightarrow> False
                       | Inr a \<Rightarrow> callable a \<and> \<not> startswith x ''_'') xs)"
    by simp
  then show ?case
    by (simp add: a)
qed

lemma valid_tasks_loop_raises:
  "\<exists>x \<in> set xs. isl (getattr e x) \<Longrightarrow>
   \<exists>ys x zs err. xs = ys @ x # zs \<and> (\<forall>y \<in> set ys. \<not> isl (getattr e y)) \<and>
      getattr e x = Inl err \<and> valid_tasks_loop e xs = Inl err"
proof (induction xs)
  case Nil
  then show ?case by simp
next
  case (Cons x xs)
  show ?case
  proof (cases "getattr e x")
    case (Inl err)
    then have "x # xs = [] @ x # xs \<and> (\<forall>y \<in> set []. \<not> isl (getattr e y)) \<and>
      getattr e x = Inl err \<and> valid_tasks_loop e (x # xs) = Inl err"
      by simp
    then show ?thesis by blast
  next
    case (Inr a)
    with Cons.prems have "\<exists>x \<in> set xs. isl (getattr e x)"
      by auto
    with Cons.IH obtain ys y zs err where
      xs: "xs = ys @ y # zs" and ok: "\<forall>u \<in> set ys. \<not> isl (getattr e u)" and
      y: "getattr e y = Inl err" and loop: "valid_tasks_loop e xs = Inl err"
      by blast
    from xs ok y loop Inr have "x # xs = (x # ys) @ y # zs \<and>
      (\<forall>u \<in> set (x # ys). \<not> isl (getattr e u)) \<and>
      getattr e y = Inl err \<and> valid_tasks_loop e (x # xs) = Inl err"
      by simp
    then show ?thesis by blast
  qed
qed

lemma valid_tasks_returns:
  "\<forall>x \<in> set (dir e). \<not> isl (getattr e x) \<Longrightarrow>
   valid_tasks e =
     Inr (filter (\<lambda>x. case getattr e x of
                         Inl err \<Rightarrow> False
                       | Inr a \<Rightarrow> callable a \<and> \<not> startswith x ''_'') (dir e))"
  unfolding valid_tasks_def by (rule valid_tasks_loop_returns)

lemma valid_tasks_raises:
  "\<exists>x \<in> set (dir e). isl (getattr e x) \<Longrightarrow>
   \<exists>ys x zs err. dir e = ys @ x # zs \<and> (\<forall>y \<in> set ys. \<not> isl (getattr e y)) \<and>
      getattr e x = Inl err \<and> valid_tasks e = Inl err"
  unfolding valid_tasks_def by (rule valid_tasks_loop_raises)

section \<open>The scenarios evaluated\<close>

lemma dir_scenario: "dir scenario_experiment = [''_private'', ''name'', ''train'']"
  by code_simp

lemma dir_boom: "dir boom_experiment = [''boom'', ''name'', ''train'']"
  by code_simp

lemma getattr_boom_raises:
  "x \<in> set (dir boom_experiment) \<Longrightarrow> getattr boom_experiment x = Inl err \<Longrightarrow>
   err = OtherError ''RuntimeError: boom''"
  unfolding dir_boom by (auto simp: getattr_def boom_experiment_def plain_def)

section \<open>\<open>_valid_tasks\<close> lists the public callable names of \<open>dir\<close>\<close>

text \<open>
  On the experiment with the raising property, \<open>_valid_tasks\<close> returns nothing: it
  raises what the property raises. On the experiment with \<open>__getattr__\<close>, the member
  \<open>evaluate\<close> is there for \<open>hasattr\<close> and \<open>getattr\<close>, callable and public, and
  \<open>_valid_tasks\<close> leaves it out, since \<open>dir\<close> does not list it.
\<close>

theorem valid_tasks_counterexample:
  "valid_tasks boom_experiment = Inl (OtherError ''RuntimeError: boom'') \<and>
   hasattr dynamic_experiment ''evaluate'' = Inr True \<and>
   \<not> isl (getattr dynamic_experiment ''evaluate'') \<and>
   callable (projr (getattr dynamic_experiment ''evaluate'')) \<and>
   \<not> startswith ''evaluate'' ''_'' \<and>
   valid_tasks dynamic_experiment = Inr [''train'']"
proof -
  have "valid_tasks boom_experiment = Inl (OtherError ''RuntimeError: boom'')"
    by code_simp
  moreover have "valid_tasks dynamic_experiment = Inr [''train'']"
    by code_simp
  moreover have "hasattr dynamic_experiment ''evaluate'' = Inr True"
    and "\<not> isl (getattr dynamic_experiment ''evaluate'')"
    and "callable (projr (getattr dynamic_experiment ''evaluate''))"
    and "\<not> startswith ''evaluate'' ''_''"
    by (simp_all add: hasattr_def getattr_def dynamic_experiment_def callable_def
        startswith_def)
  ultimately show ?thesis by simp
qed

text \<open>
  C4, as the code has it. For every experiment handle: when \<open>getattr\<close> raises on no
  name that \<open>dir\<close> lists, \<open>_valid_tasks\<close> returns, in the order of \<open>dir\<close>, exactly
  the listed names whose attribute is callable and that do not begin with an
  underscore; listed names that are private or not callable are left out, every listed
  public callable name is in. When \<open>getattr\<close> raises on a listed name,
  \<open>_valid_tasks\<close> raises what the first such access raises.
\<close>

theorem valid_tasks_exact:
  "((\<forall>x \<in> set (dir e). \<not> isl (getattr e x)) \<longrightarrow>
      valid_tasks e =
        Inr (filter (\<lambda>x. case getattr e x of
                            Inl err \<Rightarrow> False
                          | Inr a \<Rightarrow> callable a \<and> \<not> startswith x ''_'') (dir e))) \<and>
   ((\<exists>x \<in> set (dir e). isl (getattr e x)) \<longrightarrow>
      (\<exists>ys x zs err. dir e = ys @ x # zs \<and> (\<forall>y \<in> set ys. \<not> isl (getattr e y)) \<and>
         getattr e x = Inl err \<and> valid_tasks e = Inl err))"
  using valid_tasks_returns [of e] valid_tasks_raises [of e] by blast

theorem valid_tasks_exact_witness:
  "valid_tasks scenario_experiment = Inr [''train''] \<and>
   valid_tasks boom_experiment = Inl (OtherError ''RuntimeError: boom'')"
proof
  have "\<forall>x \<in> set (dir scenario_experiment). \<not> isl (getattr scenario_experiment x)"
    unfolding dir_scenario by (simp add: getattr_def scenario_experiment_def plain_def)
  with valid_tasks_exact [of scenario_experiment]
  have "valid_tasks scenario_experiment =
        Inr (filter (\<lambda>x. case getattr scenario_experiment x of
                            Inl err \<Rightarrow> False
                          | Inr a \<Rightarrow> callable a \<and> \<not> startswith x ''_'')
               (dir scenario_experiment))"
    by blast
  then show "valid_tasks scenario_experiment = Inr [''train'']"
    unfolding dir_scenario
    by (simp add: getattr_def scenario_experiment_def plain_def callable_def
        startswith_def)
next
  have "\<exists>x \<in> set (dir boom_experiment). isl (getattr boom_experiment x)"
    unfolding dir_boom by (simp add: getattr_def boom_experiment_def)
  with valid_tasks_exact [of boom_experiment]
  obtain ys x zs err where "dir boom_experiment = ys @ x # zs"
    and "getattr boom_experiment x = Inl err" and "valid_tasks boom_experiment = Inl err"
    by blast
  moreover from this have "x \<in> set (dir boom_experiment)"
    by simp
  ultimately show "valid_tasks boom_experiment = Inl (OtherError ''RuntimeError: boom'')"
    using getattr_boom_raises by blast
qed

section \<open>The successful run\<close>

text \<open>
  C2. With a non-empty \<open>output_dir\<close>, a non-empty \<open>schedule\<close> and a callable builder
  returning an \<open>Experiment\<close> on which \<open>schedule\<close> names an existing callable member,
  \<open>run\<close> calls the builder, then the member with no arguments, and its outcome is
  the member's outcome, unchanged.
\<close>

theorem run_returns_task_result:
  assumes "output_dir \<noteq> []" and "schedule \<noteq> []"
    and "f [(''output_dir'', output_dir)] = Inr e" and "is_Experiment e"
    and "hasattr e schedule = Inr True" and "getattr e schedule = Inr task"
    and "callable task"
  shows "run (Callable f) output_dir schedule =
           ([Call_experiment_fn [(''output_dir'', output_dir)], Call_task schedule],
            call task)"
  using assms by (simp add: run_def)

theorem run_returns_task_result_witness:
  "run scenario_fn ''/tmp/out'' ''train'' =
     ([Call_experiment_fn [(''output_dir'', ''/tmp/out'')], Call_task ''train''],
      Inr ''trained'')"
proof -
  have "getattr scenario_experiment ''train'' = Inr (Method (\<lambda>u. Inr ''trained''))"
    by (simp add: getattr_def scenario_experiment_def plain_def)
  moreover have "hasattr scenario_experiment ''train'' = Inr True"
    by (simp add: hasattr_def getattr_def scenario_experiment_def plain_def)
  moreover have "is_Experiment scenario_experiment"
    by (simp add: scenario_experiment_def)
  ultimately show ?thesis
    using run_returns_task_result
      [of "''/tmp/out''" "''train''" "\<lambda>kwargs. Inr scenario_experiment"
          scenario_experiment "Method (\<lambda>u. Inr ''trained'')"]
    by (simp add: scenario_fn_def callable_def call_def)
qed

section \<open>Private members as schedules\<close>

text \<open>
  In the scenario, \<open>run\<close> with schedule \<open>_private\<close> raises nothing: the private
  method is called and its value \<open>"x"\<close> returned.
\<close>

theorem run_private_counterexample:
  "run scenario_fn ''/tmp/out'' ''_private'' =
     ([Call_experiment_fn [(''output_dir'', ''/tmp/out'')], Call_task ''_private''],
      Inr ''x'') \<and>
   \<not> isl (snd (run scenario_fn ''/tmp/out'' ''_private''))"
  by (simp add: run_def scenario_fn_def scenario_experiment_def hasattr_def getattr_def
      plain_def callable_def call_def)

text \<open>
  C3, as the code has it. On an experiment with a callable \<open>train\<close> returning
  \<open>"trained"\<close> and a callable \<open>_private\<close> returning \<open>"x"\<close>, \<open>run\<close> with schedule
  \<open>train\<close> returns \<open>"trained"\<close> and \<open>run\<close> with schedule \<open>_private\<close> returns
  \<open>"x"\<close>: only the list of valid tasks in the log leaves private members out.
\<close>

theorem run_train_and_private:
  assumes "output_dir \<noteq> []"
    and "f [(''output_dir'', output_dir)] = Inr e" and "is_Experiment e"
    and "getattr e ''train'' = Inr (Method (\<lambda>u. Inr ''trained''))"
    and "getattr e ''_private'' = Inr (Method (\<lambda>u. Inr ''x''))"
  shows "snd (run (Callable f) output_dir ''train'') = Inr ''trained'' \<and>
         snd (run (Callable f) output_dir ''_private'') = Inr ''x''"
proof -
  from assms(4,5) have "hasattr e ''train'' = Inr True"
    and "hasattr e ''_private'' = Inr True"
    by (simp_all add: hasattr_True_iff)
  with assms show ?thesis
    by (simp add: run_def callable_def call_def)
qed

theorem run_train_and_private_witness:
  "snd (run scenario_fn ''/tmp/out'' ''train'') = Inr ''trained'' \<and>
   snd (run scenario_fn ''/tmp/out'' ''_private'') = Inr ''x''"
proof -
  have "getattr scenario_experiment ''train'' = Inr (Method (\<lambda>u. Inr ''trained''))"
    and "getattr scenario_experiment ''_private'' = Inr (Method (\<lambda>u. Inr ''x''))"
    and "is_Experiment scenario_experiment"
    by (simp_all add: getattr_def scenario_experiment_def plain_def)
  then show ?thesis
    using run_train_and_private
      [of "''/tmp/out''" "\<lambda>kwargs. Inr scenario_experiment" scenario_experiment]
    by (simp add: scenario_fn_def)
qed

section \<open>The checks of the arguments\<close>

text \<open>
  C5. An empty \<open>output_dir\<close> raises \<open>ValueError\<close> whatever the builder and the
  schedule are, with an empty trace: the builder is not called and the schedule plays
  no part. A non-empty \<open>output_dir\<close> with an empty \<open>schedule\<close> raises a
  \<open>ValueError\<close> with another message, again with an empty trace.
\<close>

theorem run_empty_arguments:
  "run experiment_fn [] schedule =
     ([], Inl (ValueError ''Must specify an output directory'')) \<and>
   (output_dir \<noteq> [] \<longrightarrow>
      run experiment_fn output_dir [] = ([], Inl (ValueError ''Must specify a schedule'')))"
  by (simp add: run_def)

theorem run_empty_arguments_witness:
  "run scenario_fn [] ''train'' =
     ([], Inl (ValueError ''Must specify an output directory'')) \<and>
   run scenario_fn [] [] =
     ([], Inl (ValueError ''Must specify an output directory'')) \<and>
   run scenario_fn ''/tmp/out'' [] = ([], Inl (ValueError ''Must specify a schedule''))"
  using run_empty_arguments [of scenario_fn "''train''" "''/tmp/out''"]
    run_empty_arguments [of scenario_fn "[]" "''/tmp/out''"]
  by simp

text \<open>
  C6. With a non-empty \<open>output_dir\<close> and a non-empty \<open>schedule\<close>, a builder that is
  not callable makes \<open>run\<close> raise \<open>TypeError\<close> with an empty trace: nothing is
  called.
\<close>

theorem run_builder_not_callable:
  assumes "output_dir \<noteq> []" and "schedule \<noteq> []"
  shows "run (NotCallable s) output_dir schedule =
           ([], Inl (TypeError (''Experiment builder '' @ [CHR 0x22] @ s @ [CHR 0x22]
                                @ '' is not callable.'')))"
  using assms by (simp add: run_def)

theorem run_builder_not_callable_witness:
  "run (NotCallable ''42'' :: string builder) ''/tmp/out'' ''train'' =
     ([], Inl (TypeError (''Experiment builder '' @ [CHR 0x22] @ ''42'' @ [CHR 0x22]
                          @ '' is not callable.'')))"
  using run_builder_not_callable [of "''/tmp/out''" "''train''" "''42''"]
  by simp

section \<open>The check of the builder's result\<close>

text \<open>
  C7. When the builder is called and returns an object that is not an \<open>Experiment\<close>,
  \<open>run\<close> raises \<open>TypeError\<close> with a message that contains the type of the object,
  and the trace holds the call of the builder only: no member of the object is called.
\<close>

theorem run_not_an_experiment:
  assumes "output_dir \<noteq> []" and "schedule \<noteq> []"
    and "f [(''output_dir'', output_dir)] = Inr e" and "\<not> is_Experiment e"
  shows "run (Callable f) output_dir schedule =
           ([Call_experiment_fn [(''output_dir'', output_dir)]],
            Inl (TypeError
              (''Experiment builder did not return an Experiment instance, got ''
               @ type_str e @ '' instead.'')))"
  using assms by (simp add: run_def)

theorem run_not_an_experiment_witness:
  "run dict_fn ''/tmp/out'' ''keys'' =
     ([Call_experiment_fn [(''output_dir'', ''/tmp/out'')]],
      Inl (TypeError
        (''Experiment builder did not return an Experiment instance, got ''
         @ ''<class '' @ [CHR 0x27] @ ''dict'' @ [CHR 0x27] @ ''>'' @ '' instead.'')))"
proof -
  have "\<not> is_Experiment not_an_experiment"
    and "type_str not_an_experiment = ''<class '' @ [CHR 0x27] @ ''dict'' @ [CHR 0x27] @ ''>''"
    by (simp_all add: not_an_experiment_def)
  then show ?thesis
    using run_not_an_experiment
      [of "''/tmp/out''" "''keys''" "\<lambda>kwargs. Inr not_an_experiment" not_an_experiment]
    by (simp add: dict_fn_def)
qed

section \<open>The checks of the schedule\<close>







section \<open>The builder is called once\<close>

text \<open>
  C10. With a non-empty \<open>output_dir\<close>, a non-empty \<open>schedule\<close> and a callable
  builder, the trace of \<open>run\<close> holds exactly one call of the builder, with the single
  keyword argument \<open>output_dir\<close> bound to the output directory, on every path. The
  outcome of \<open>run\<close> is that of this one application: what the builder raises there
  is what \<open>run\<close> raises, with nothing after the call in the trace, and what it returns
  there is the experiment \<open>run\<close> goes on with, so the builder is applied to no other
  arguments.
\<close>

theorem run_calls_builder_once:
  assumes "output_dir \<noteq> []" and "schedule \<noteq> []"
  shows "builder_calls (fst (run (Callable f) output_dir schedule)) =
           [[(''output_dir'', output_dir)]] \<and>
         run (Callable f) output_dir schedule =
           (case f [(''output_dir'', output_dir)] of
              Inl err \<Rightarrow> ([Call_experiment_fn [(''output_dir'', output_dir)]], Inl err)
            | Inr e \<Rightarrow> run (Callable (\<lambda>kwargs. Inr e)) output_dir schedule)"
proof
  show "builder_calls (fst (run (Callable f) output_dir schedule)) =
           [[(''output_dir'', output_dir)]]"
    using assms by (simp add: run_def Let_def split: sum.splits)
  show "run (Callable f) output_dir schedule =
           (case f [(''output_dir'', output_dir)] of
              Inl err \<Rightarrow> ([Call_experiment_fn [(''output_dir'', output_dir)]], Inl err)
            | Inr e \<Rightarrow> run (Callable (\<lambda>kwargs. Inr e)) output_dir schedule)"
    using assms by (cases "f [(''output_dir'', output_dir)]") (simp_all add: run_def)
qed

theorem run_calls_builder_once_witness:
  "run echo_fn ''/tmp/out'' ''train'' =
     ([Call_experiment_fn [(''output_dir'', ''/tmp/out'')], Call_task ''train''],
      Inr ''/tmp/out'') \<and>
   run raising_fn ''/tmp/out'' ''train'' =
     ([Call_experiment_fn [(''output_dir'', ''/tmp/out'')]],
      Inl (OtherError ''IOError: disk full'')) \<and>
   builder_calls (fst (run boom_fn ''/tmp/out'' ''evaluate'')) =
     [[(''output_dir'', ''/tmp/out'')]]"
proof (intro conjI)
  let ?echo = "\<lambda>kwargs. case map_of kwargs ''output_dir'' of
         None \<Rightarrow> Inl (TypeError ''missing argument output_dir'')
       | Some d \<Rightarrow>
           Inr \<lparr>type_str = ''<class '' @ [CHR 0x27] @ ''Experiment'' @ [CHR 0x27] @ ''>'',
                is_Experiment = True,
                names = [''train''],
                attribute = plain [(''train'', Method (\<lambda>u. Inr d))]\<rparr>"
  have "run (Callable ?echo) ''/tmp/out'' ''train'' =
          run (Callable (\<lambda>kwargs.
            Inr \<lparr>type_str = ''<class '' @ [CHR 0x27] @ ''Experiment'' @ [CHR 0x27] @ ''>'',
                 is_Experiment = True,
                 names = [''train''],
                 attribute = plain [(''train'', Method (\<lambda>u. Inr ''/tmp/out''))]\<rparr>))
            ''/tmp/out'' ''train''"
    using run_calls_builder_once [of "''/tmp/out''" "''train''" ?echo]
    by simp
  then show "run echo_fn ''/tmp/out'' ''train'' =
     ([Call_experiment_fn [(''output_dir'', ''/tmp/out'')], Call_task ''train''],
      Inr ''/tmp/out'')"
    unfolding echo_fn_def
    by (simp add: run_def hasattr_def getattr_def plain_def callable_def call_def)
  show "run raising_fn ''/tmp/out'' ''train'' =
     ([Call_experiment_fn [(''output_dir'', ''/tmp/out'')]],
      Inl (OtherError ''IOError: disk full''))"
    using run_calls_builder_once
      [of "''/tmp/out''" "''train''" "\<lambda>kwargs. Inl (OtherError ''IOError: disk full'')"]
    unfolding raising_fn_def by simp blast
  show "builder_calls (fst (run boom_fn ''/tmp/out'' ''evaluate'')) =
     [[(''output_dir'', ''/tmp/out'')]]"
    using run_calls_builder_once
      [of "''/tmp/out''" "''evaluate''" "\<lambda>kwargs. Inr boom_experiment"]
    unfolding boom_fn_def by simp
qed

end
